theory Spec2Isabelle
  imports Main "HOL-Library.Sublist"
begin

section \<open>Provider selection and prompt trimming (src/ai/providers.ts)\<close>

subsection \<open>Process environment and provider construction\<close>

text \<open>
  \<^verbatim>\<open>process.env\<close> maps a variable name to a string or to \<^verbatim>\<open>undefined\<close>.
  The JavaScript operator \<^verbatim>\<open>a || b\<close> yields \<^verbatim>\<open>a\<close> when it is truthy: for a
  string-or-undefined value, when it is defined and not the empty string.
\<close>

type_synonym process_env = "string \<Rightarrow> string option"

definition or_else :: "string option \<Rightarrow> string option \<Rightarrow> string option" where
  "or_else a b = (case a of None \<Rightarrow> b | Some s \<Rightarrow> if s = [] then b else Some s)"

definition or_default :: "string option \<Rightarrow> string \<Rightarrow> string" where
  "or_default a d = (case a of None \<Rightarrow> d | Some s \<Rightarrow> if s = [] then d else s)"

text \<open>
  The SDK factories are outside the repository. A provider is represented by the
  settings it was created from, a model handle by its provider, the model name and the
  two settings this module passes.
\<close>

datatype provider =
    OpenAIProvider "string option" string
  | GoogleProvider "string option"
  | AzureProvider string "string option"
  | MistralProvider string

datatype languageModel =
  LanguageModel provider string "string option" "bool option"

definition startsWith_o :: "string \<Rightarrow> bool" where
  "startsWith_o s = (case s of [] \<Rightarrow> False | c # _ \<Rightarrow> c = CHR ''o'')"

record models =
  o3MiniModel :: languageModel
  googleModel :: languageModel
  azureModel :: "languageModel option"
  mistralModel :: "languageModel option"

definition openai :: "process_env \<Rightarrow> provider" where
  "openai env =
     OpenAIProvider (env ''OPENAI_KEY'')
       (or_default (env ''OPENAI_ENDPOINT'') ''https://api.openai.com/v1'')"

definition google :: "process_env \<Rightarrow> provider" where
  "google env = GoogleProvider (env ''GOOGLE_KEY'')"

definition azureApiKey :: "process_env \<Rightarrow> string" where
  "azureApiKey env = or_default (or_else (env ''AZURE_KEY'') (env ''AZURE_API_KEY'')) []"

definition mistralApiKey :: "process_env \<Rightarrow> string" where
  "mistralApiKey env = or_default (or_else (env ''MISTRAL_KEY'') (env ''MISTRAL_API_KEY'')) []"

definition azureProvider :: "process_env \<Rightarrow> provider option" where
  "azureProvider env =
     (if azureApiKey env \<noteq> []
      then Some (AzureProvider (azureApiKey env) (env ''AZURE_RESOURCE_NAME''))
      else None)"

definition mistralProvider :: "process_env \<Rightarrow> provider option" where
  "mistralProvider env =
     (if mistralApiKey env \<noteq> [] then Some (MistralProvider (mistralApiKey env)) else None)"

definition customModel :: "process_env \<Rightarrow> string" where
  "customModel env = or_default (env ''OPENAI_MODEL'') ''o3-mini''"

definition customGoogleModel :: "process_env \<Rightarrow> string" where
  "customGoogleModel env = or_default (env ''GOOGLE_MODEL'') ''gemini-2.0-pro-exp-02-05''"

definition customAzureModel :: "process_env \<Rightarrow> string" where
  "customAzureModel env = or_default (env ''AZURE_MODEL'') ''gpt-4o-mini''"

definition customMistralModel :: "process_env \<Rightarrow> string" where
  "customMistralModel env = or_default (env ''MISTRAL_MODEL'') ''mistral-large-latest''"

text \<open>The module's exported handles, as built once when the module is loaded.\<close>

definition load_models :: "process_env \<Rightarrow> models" where
  "load_models env =
     \<lparr> o3MiniModel =
         LanguageModel (openai env) (customModel env)
           (if startsWith_o (customModel env) then Some ''medium'' else None) (Some True),
       googleModel = LanguageModel (google env) (customGoogleModel env) None (Some True),
       azureModel =
         (case azureProvider env of
            Some p \<Rightarrow> Some (LanguageModel p (customAzureModel env) None (Some True))
          | None \<Rightarrow> None),
       mistralModel =
         (case mistralProvider env of
            Some p \<Rightarrow> Some (LanguageModel p (customMistralModel env) None None)
          | None \<Rightarrow> None) \<rparr>"

subsection \<open>getSelectedModel\<close>

text \<open>
  The console is the list of warnings printed so far; \<^verbatim>\<open>console.warn\<close> appends
  one line. The function returns the handle (\<open>None\<close> would be \<^verbatim>\<open>null\<close>) together
  with the console afterwards. The argument is the string the \<^verbatim>\<open>switch\<close> sees at
  run time, so the \<^verbatim>\<open>default\<close> branch is part of the model.
\<close>

type_synonym console = "string list"

definition warn :: "string \<Rightarrow> console \<Rightarrow> console" where
  "warn msg con = con @ [msg]"

definition getSelectedModel ::
  "models \<Rightarrow> string \<Rightarrow> console \<Rightarrow> languageModel option \<times> console" where
  "getSelectedModel m modelType con =
     (if modelType = ''openai'' then (Some (o3MiniModel m), con)
      else if modelType = ''google'' then (Some (googleModel m), con)
      else if modelType = ''azure'' then
        (if azureModel m \<noteq> None then (azureModel m, con)
         else (Some (o3MiniModel m),
               warn ''Azure API key not provided. Falling back to OpenAI model.'' con))
      else if modelType = ''mistral'' then
        (if mistralModel m \<noteq> None then (mistralModel m, con)
         else (Some (o3MiniModel m),
               warn ''Mistral API key not provided. Falling back to OpenAI model.'' con))
      else (Some (o3MiniModel m), con))"

subsection \<open>trimPrompt\<close>

text \<open>
  A prompt is a JavaScript string: a sequence of UTF-16 code units, whose \<^verbatim>\<open>length\<close>
  counts the units. \<^verbatim>\<open>trimPrompt\<close> never inspects a unit, so the unit type is left
  open. The context size is an integer; the default value of the parameter is not
  modelled, the context size is always given.

  Two collaborators are not part of this file of the repository and are parameters of
  the model: \<open>encode\<close>, the tokenizer (\<^verbatim>\<open>encoder.encode\<close>, giving the list of token
  ids), and \<open>splitText\<close>, where \<open>splitText chunkSize prompt\<close> is what
  \<^verbatim>\<open>new RecursiveCharacterTextSplitter({chunkSize, chunkOverlap: 0}).splitText(prompt)\<close>
  returns.
\<close>

type_synonym 'u encoder = "'u list \<Rightarrow> nat list"
type_synonym 'u splitter = "int \<Rightarrow> 'u list \<Rightarrow> 'u list list"

definition MinChunkSize :: int where
  "MinChunkSize = 140"

text \<open>\<^verbatim>\<open>s.slice(0, e)\<close>: a negative end counts from the end of the string.\<close>

definition slice0 :: "'u list \<Rightarrow> int \<Rightarrow> 'u list" where
  "slice0 s e = (if e < 0 then take (nat (int (length s) + e)) s else take (nat e) s)"

text \<open>\<^verbatim>\<open>chunks[0] ?? ''\<close>: the first chunk, or the empty string when there is none.\<close>

definition first_or_empty :: "'u list list \<Rightarrow> 'u list" where
  "first_or_empty chunks = (case chunks of [] \<Rightarrow> [] | c # _ \<Rightarrow> c)"

text \<open>
  The recursion is not structural and its termination depends on the splitter, so the
  function is defined in the option monad: \<open>None\<close> means that the call does not return.
\<close>

partial_function (option) trimPrompt ::
  "'u encoder \<Rightarrow> 'u splitter \<Rightarrow> 'u list \<Rightarrow> int \<Rightarrow> 'u list option" where
  "trimPrompt encode splitText prompt contextSize =
     (if prompt = [] then Some []
      else
        let len = int (length (encode prompt)) in
        if len \<le> contextSize then Some prompt
        else
          let overflowTokens = len - contextSize;
              chunkSize = int (length prompt) - overflowTokens * 3
          in
          if chunkSize < MinChunkSize then Some (slice0 prompt MinChunkSize)
          else
            let trimmedPrompt = first_or_empty (splitText chunkSize prompt) in
            if length trimmedPrompt = length prompt
            then trimPrompt encode splitText (slice0 prompt chunkSize) contextSize
            else trimPrompt encode splitText trimmedPrompt contextSize)"

declare trimPrompt.simps [code]

text \<open>The argument of the recursive call, for a chunk size of at least \<open>MinChunkSize\<close>.\<close>

definition next_prompt :: "'u splitter \<Rightarrow> 'u list \<Rightarrow> int \<Rightarrow> 'u list" where
  "next_prompt splitText prompt chunkSize =
     (if length (first_or_empty (splitText chunkSize prompt)) = length prompt
      then slice0 prompt chunkSize
      else first_or_empty (splitText chunkSize prompt))"

text \<open>
  Modelled from the spec: the text splitter \<^verbatim>\<open>RecursiveCharacterTextSplitter\<close>
  (\<^verbatim>\<open>./text-splitter\<close>) is not among the sources. The specification describes it as
  a black box producing an ordered sequence of chunks, a chunk being a contiguous
  substring of the text. This is the only property of the splitter that is assumed.
\<close>

definition chunks_are_substrings :: "'u splitter \<Rightarrow> bool" where
  "chunks_are_substrings splitText \<longleftrightarrow>
     (\<forall>chunkSize prompt. \<forall>c \<in> set (splitText chunkSize prompt). sublist c prompt)"

subsection \<open>Sample collaborators for concrete runs\<close>

text \<open>
  A simulated tokenizer with one token for every \<open>k\<close> code units (rounded up), and a
  simulated splitter that cuts the text at every separator unit and then cuts each piece
  into consecutive chunks of at most \<open>chunkSize\<close> units.
\<close>

definition sim_encode :: "nat \<Rightarrow> 'u encoder" where
  "sim_encode k t = replicate ((length t + k - 1) div k) 0"

function chop :: "nat \<Rightarrow> 'u list \<Rightarrow> 'u list list" where
  "chop n xs = (if xs = [] \<or> n = 0 then [] else take n xs # chop n (drop n xs))"
  by pat_completeness auto
termination
  by (relation "measure (\<lambda>(n, xs). length xs)") auto

declare chop.simps [simp del]

function split_on :: "'u \<Rightarrow> 'u list \<Rightarrow> 'u list list" where
  "split_on sep xs =
     (if xs = [] then []
      else takeWhile (\<lambda>x. x \<noteq> sep) xs #
           split_on sep (drop 1 (dropWhile (\<lambda>x. x \<noteq> sep) xs)))"
  by pat_completeness auto
termination
proof (relation "measure (\<lambda>(sep, xs). length xs)")
  show "wf (measure (\<lambda>(sep :: 'u, xs :: 'u list). length xs))"
    by simp
next
  fix sep :: 'u and xs :: "'u list"
  assume nonempty: "xs \<noteq> []"
  have "length (dropWhile (\<lambda>x. x \<noteq> sep) xs) \<le> length xs"
    by (rule length_dropWhile_le)
  with nonempty have "length (drop 1 (dropWhile (\<lambda>x. x \<noteq> sep) xs)) < length xs"
    by (cases xs) simp_all
  then show "((sep, drop 1 (dropWhile (\<lambda>x. x \<noteq> sep) xs)), sep, xs)
      \<in> measure (\<lambda>(sep, xs). length xs)"
    by simp
qed

declare split_on.simps [simp del]

definition sim_split :: "'u \<Rightarrow> 'u splitter" where
  "sim_split sep chunkSize t = concat (map (chop (nat chunkSize)) (split_on sep t))"

section \<open>Properties\<close>

lemma slice0_MinChunkSize: "slice0 p MinChunkSize = take 140 p"
  by (simp add: slice0_def MinChunkSize_def)

subsection \<open>One call of trimPrompt\<close>

lemma trimPrompt_within:
  "int (length (encode prompt)) \<le> contextSize \<Longrightarrow>
   trimPrompt encode splitText prompt contextSize = Some prompt"
  by (subst trimPrompt.simps) simp

lemma trimPrompt_floor:
  assumes "contextSize < int (length (encode prompt))"
    and "int (length prompt) - (int (length (encode prompt)) - contextSize) * 3 < MinChunkSize"
  shows "trimPrompt encode splitText prompt contextSize = Some (take 140 prompt)"
  using assms by (subst trimPrompt.simps) (simp add: Let_def slice0_MinChunkSize)

lemma trimPrompt_recurse:
  assumes "prompt \<noteq> []" and "contextSize < int (length (encode prompt))"
    and "MinChunkSize \<le> int (length prompt) - (int (length (encode prompt)) - contextSize) * 3"
  shows "trimPrompt encode splitText prompt contextSize =
         trimPrompt encode splitText
           (next_prompt splitText prompt
              (int (length prompt) - (int (length (encode prompt)) - contextSize) * 3))
           contextSize"
  using assms by (subst trimPrompt.simps) (simp add: Let_def next_prompt_def)

lemma trimPrompt_short:
  assumes "length p \<le> 140"
  shows "trimPrompt encode splitText p contextSize = Some p"
proof (cases "int (length (encode p)) \<le> contextSize")
  case True
  then show ?thesis by (rule trimPrompt_within)
next
  case False
  with assms have "trimPrompt encode splitText p contextSize = Some (take 140 p)"
    by (intro trimPrompt_floor) (simp_all add: MinChunkSize_def)
  with assms show ?thesis by simp
qed

subsection \<open>The recursion under the splitter's contract\<close>

lemma first_or_empty_sublist:
  assumes "chunks_are_substrings splitText"
  shows "sublist (first_or_empty (splitText n p)) p"
proof (cases "splitText n p")
  case Nil
  then show ?thesis by (simp add: first_or_empty_def)
next
  case (Cons c cs)
  then have "c \<in> set (splitText n p)" by simp
  with assms have "sublist c p"
    unfolding chunks_are_substrings_def by blast
  with Cons show ?thesis by (simp add: first_or_empty_def)
qed

lemma next_prompt_shorter:
  assumes "chunks_are_substrings splitText" and "MinChunkSize \<le> n" and "n < int (length p)"
  shows "length (next_prompt splitText p n) < length p"
proof (cases "length (first_or_empty (splitText n p)) = length p")
  case True
  with assms(2,3) show ?thesis
    by (simp add: next_prompt_def slice0_def MinChunkSize_def)
next
  case False
  moreover have "length (first_or_empty (splitText n p)) \<le> length p"
    using assms(1) by (intro sublist_length_le first_or_empty_sublist)
  ultimately show ?thesis by (simp add: next_prompt_def)
qed

lemma trimPrompt_returns:
  assumes "chunks_are_substrings splitText"
  shows "\<exists>r. trimPrompt encode splitText prompt contextSize = Some r \<and>
             length r \<le> length prompt \<and>
             (int (length (encode r)) \<le> contextSize \<or> length r \<le> 140) \<and>
             trimPrompt encode splitText r contextSize = Some r"
proof (induction prompt rule: length_induct)
  case (1 p)
  let ?len = "int (length (encode p))"
  let ?chunkSize = "int (length p) - (?len - contextSize) * 3"
  consider (within) "?len \<le> contextSize"
    | (floor) "contextSize < ?len" "?chunkSize < MinChunkSize"
    | (recurse) "contextSize < ?len" "MinChunkSize \<le> ?chunkSize"
    by linarith
  then show ?case
  proof cases
    case within
    then show ?thesis by (simp add: trimPrompt_within)
  next
    case floor
    then have "trimPrompt encode splitText p contextSize = Some (take 140 p)"
      by (rule trimPrompt_floor)
    then show ?thesis by (simp add: trimPrompt_short)
  next
    case recurse
    let ?q = "next_prompt splitText p ?chunkSize"
    from recurse have "p \<noteq> []" by (auto simp: MinChunkSize_def)
    with recurse have eq: "trimPrompt encode splitText p contextSize =
        trimPrompt encode splitText ?q contextSize"
      by (intro trimPrompt_recurse)
    from recurse have "?chunkSize < int (length p)" by simp
    with assms recurse(2) have shorter: "length ?q < length p"
      by (intro next_prompt_shorter)
    with "1.IH" obtain r where "trimPrompt encode splitText ?q contextSize = Some r"
      "length r \<le> length ?q"
      "int (length (encode r)) \<le> contextSize \<or> length r \<le> 140"
      "trimPrompt encode splitText r contextSize = Some r"
      by blast
    with eq shorter show ?thesis by auto
  qed
qed

subsection \<open>The sample splitter meets the contract\<close>

lemma chop_sublist: "c \<in> set (chop n xs) \<Longrightarrow> sublist c xs"
proof (induction n xs rule: chop.induct)
  case (1 n xs)
  show ?case
  proof (cases "xs = [] \<or> n = 0")
    case True
    with "1.prems" show ?thesis by (simp add: chop.simps)
  next
    case False
    with "1.prems" have "c = take n xs \<or> c \<in> set (chop n (drop n xs))"
      by (subst (asm) chop.simps) simp
    then show ?thesis
    proof
      assume "c = take n xs" then show ?thesis by simp
    next
      assume "c \<in> set (chop n (drop n xs))"
      with False "1.IH" have "sublist c (drop n xs)" by simp
      then show ?thesis
        by (rule sublist_order.order.trans) simp
    qed
  qed
qed

lemma split_on_sublist: "c \<in> set (split_on sep xs) \<Longrightarrow> sublist c xs"
proof (induction sep xs rule: split_on.induct)
  case (1 sep xs)
  let ?rest = "drop 1 (dropWhile (\<lambda>x. x \<noteq> sep) xs)"
  show ?case
  proof (cases "xs = []")
    case True
    with "1.prems" show ?thesis by (simp add: split_on.simps)
  next
    case False
    with "1.prems" have "c = takeWhile (\<lambda>x. x \<noteq> sep) xs \<or> c \<in> set (split_on sep ?rest)"
      by (subst (asm) split_on.simps) simp
    then show ?thesis
    proof
      assume "c = takeWhile (\<lambda>x. x \<noteq> sep) xs" then show ?thesis by simp
    next
      assume "c \<in> set (split_on sep ?rest)"
      with False "1.IH" have "sublist c ?rest" by simp
      moreover have "sublist ?rest (dropWhile (\<lambda>x. x \<noteq> sep) xs)" by simp
      moreover have "sublist (dropWhile (\<lambda>x. x \<noteq> sep) xs) xs" by simp
      ultimately show ?thesis
        by (blast intro: sublist_order.order.trans)
    qed
  qed
qed

lemma sim_split_substrings: "chunks_are_substrings (sim_split sep)"
  unfolding chunks_are_substrings_def sim_split_def
proof (intro allI ballI)
  fix chunkSize :: int and prompt c :: "'a list"
  assume "c \<in> set (concat (map (chop (nat chunkSize)) (split_on sep prompt)))"
  then obtain piece where "piece \<in> set (split_on sep prompt)"
    and "c \<in> set (chop (nat chunkSize) piece)"
    by auto
  then have "sublist c piece" and "sublist piece prompt"
    by (simp_all add: chop_sublist split_on_sublist)
  then show "sublist c prompt" by (rule sublist_order.order.trans)
qed

subsection \<open>Null handles\<close>

lemma azureModel_null_iff: "azureModel (load_models env) = None \<longleftrightarrow> azureApiKey env = []"
  by (simp add: load_models_def azureProvider_def)

lemma mistralModel_null_iff: "mistralModel (load_models env) = None \<longleftrightarrow> mistralApiKey env = []"
  by (simp add: load_models_def mistralProvider_def)

lemma unconfigured_null:
  "azureModel (load_models Map.empty) = None \<and> mistralModel (load_models Map.empty) = None"
  by (simp add: azureModel_null_iff mistralModel_null_iff azureApiKey_def mistralApiKey_def
      or_else_def or_default_def)

section \<open>The specification's claims\<close>

subsection \<open>trimPrompt\<close>

text \<open>
  C1. For every input text and every context size (in particular every budget of at
  least 1), \<^verbatim>\<open>trimPrompt\<close> returns: every call either returns directly or recurses
  on a strictly shorter text. The splitter is only assumed to produce contiguous
  substrings of its input.
\<close>

theorem trimPrompt_terminates:
  assumes "chunks_are_substrings splitText"
  shows "\<exists>r. trimPrompt encode splitText prompt contextSize = Some r"
  using trimPrompt_returns [OF assms] by blast

theorem trimPrompt_terminates_witness:
  "chunks_are_substrings (sim_split CHR 0x0A :: char splitter) \<and>
   (\<exists>r. trimPrompt (sim_encode 4) (sim_split CHR 0x0A) (replicate 1000 CHR ''a'') 100 = Some r)"
  using trimPrompt_terminates [OF sim_split_substrings [of "CHR 0x0A"], of "sim_encode 4"
      "replicate 1000 CHR ''a''" 100]
    sim_split_substrings [of "CHR 0x0A"]
  by simp

text \<open>
  C2. The result of \<^verbatim>\<open>trimPrompt\<close> is never longer, in code units, than the input
  text, for every text and every context size.
\<close>

theorem trimPrompt_not_longer:
  assumes "chunks_are_substrings splitText"
  shows "\<exists>r. trimPrompt encode splitText prompt contextSize = Some r \<and>
             length r \<le> length prompt"
  using trimPrompt_returns [OF assms] by blast

theorem trimPrompt_not_longer_witness:
  "chunks_are_substrings (sim_split CHR 0x0A :: char splitter) \<and>
   (\<exists>r. trimPrompt (sim_encode 3) (sim_split CHR 0x0A)
          (''Title'' @ CHR 0x0A # replicate 900 CHR ''b'') 50 = Some r \<and>
        length r \<le> length (''Title'' @ CHR 0x0A # replicate 900 CHR ''b''))"
  using trimPrompt_not_longer [OF sim_split_substrings [of "CHR 0x0A"], of "sim_encode 3"
      "''Title'' @ CHR 0x0A # replicate 900 CHR ''b''" 50]
    sim_split_substrings [of "CHR 0x0A"]
  by simp

text \<open>
  C3. A text whose measured token count is at most the context size is returned
  unchanged.
\<close>

theorem trimPrompt_within_budget:
  assumes "int (length (encode prompt)) \<le> contextSize"
  shows "trimPrompt encode splitText prompt contextSize = Some prompt"
  using assms by (rule trimPrompt_within)

theorem trimPrompt_within_budget_witness:
  "int (length (sim_encode 4 ''short prompt'')) \<le> 128000 \<and>
   trimPrompt (sim_encode 4) (sim_split CHR 0x0A) ''short prompt'' 128000 = Some ''short prompt''"
  using trimPrompt_within_budget [of "sim_encode 4" "''short prompt''" 128000 "sim_split CHR 0x0A"]
  by (simp add: sim_encode_def)

text \<open>
  C4. When the measured token count exceeds the context size and the estimated number
  of code units to keep, \<open>length prompt - 3 * (measured - contextSize)\<close>, is below 140,
  the result is exactly the first 140 code units of the text.
\<close>

theorem trimPrompt_floor_clip:
  assumes "contextSize < int (length (encode prompt))"
    and "int (length prompt) - 3 * (int (length (encode prompt)) - contextSize) < 140"
  shows "trimPrompt encode splitText prompt contextSize = Some (take 140 prompt)"
  using assms by (intro trimPrompt_floor) (simp_all add: MinChunkSize_def)

text \<open>The witness is a text of 500000 simulated tokens against a budget of 128000.\<close>

theorem trimPrompt_floor_clip_witness:
  "128000 < int (length (sim_encode 1 (replicate 500000 CHR ''a''))) \<and>
   int (length (replicate 500000 CHR ''a'')) -
     3 * (int (length (sim_encode 1 (replicate 500000 CHR ''a''))) - 128000) < 140 \<and>
   trimPrompt (sim_encode 1) (sim_split CHR 0x0A) (replicate 500000 CHR ''a'') 128000 =
     Some (replicate 140 CHR ''a'')"
  using trimPrompt_floor_clip [of 128000 "sim_encode 1" "replicate 500000 CHR ''a''"
      "sim_split CHR 0x0A"]
  by (simp add: sim_encode_def)

text \<open>
  C5, as stated, fails. With a budget of 1, a text longer than 140 code units whose
  estimate \<open>length prompt - 3 * (measured - 1)\<close> is at least 140 is handed to the
  splitter, and the recursion continues on the first chunk, which may be shorter than
  140. Here the text is a seven-letter heading, a line feed and a body of 700 letters
  (708 units, 177 simulated tokens, estimate 180): the first chunk is the heading, which
  measures 2 tokens, and the result is the heading, of length 7.
\<close>

theorem trimPrompt_budget_one_counterexample:
  "140 < length (''Summary'' @ CHR 0x0A # replicate 700 CHR ''a'') \<and>
   1 < length (sim_encode 4 (''Summary'' @ CHR 0x0A # replicate 700 CHR ''a'')) \<and>
   trimPrompt (sim_encode 4) (sim_split CHR 0x0A)
     (''Summary'' @ CHR 0x0A # replicate 700 CHR ''a'') 1 = Some ''Summary'' \<and>
   length ''Summary'' \<noteq> 140"
  by (simp add: trimPrompt.simps sim_encode_def Let_def MinChunkSize_def slice0_def
      sim_split_def split_on.simps chop.simps first_or_empty_def)

text \<open>
  C5, amended. For a budget of 1: a text of at most 140 code units is returned
  unchanged; a text longer than 140 code units whose measured token count exceeds 1
  and whose estimate \<open>length prompt - 3 * (measured - 1)\<close> is below 140 gives a result
  of length exactly 140.
\<close>

theorem trimPrompt_budget_one:
  "(length prompt \<le> 140 \<longrightarrow> trimPrompt encode splitText prompt 1 = Some prompt) \<and>
   (140 < length prompt \<and> 1 < int (length (encode prompt)) \<and>
    int (length prompt) - 3 * (int (length (encode prompt)) - 1) < 140 \<longrightarrow>
      (\<exists>r. trimPrompt encode splitText prompt 1 = Some r \<and> length r = 140))"
proof (intro conjI impI)
  assume "length prompt \<le> 140"
  then show "trimPrompt encode splitText prompt 1 = Some prompt"
    by (rule trimPrompt_short)
next
  assume long: "140 < length prompt \<and> 1 < int (length (encode prompt)) \<and>
    int (length prompt) - 3 * (int (length (encode prompt)) - 1) < 140"
  then have "trimPrompt encode splitText prompt 1 = Some (take 140 prompt)"
    by (intro trimPrompt_floor) (simp_all add: MinChunkSize_def)
  moreover from long have "length (take 140 prompt) = 140" by simp
  ultimately show "\<exists>r. trimPrompt encode splitText prompt 1 = Some r \<and> length r = 140"
    by blast
qed

theorem trimPrompt_budget_one_witness:
  "length ''Hello, world'' \<le> 140 \<and>
   trimPrompt (sim_encode 4) (sim_split CHR 0x0A) ''Hello, world'' 1 = Some ''Hello, world'' \<and>
   140 < length (replicate 200 CHR ''a'') \<and>
   1 < int (length (sim_encode 4 (replicate 200 CHR ''a''))) \<and>
   int (length (replicate 200 CHR ''a'')) -
     3 * (int (length (sim_encode 4 (replicate 200 CHR ''a''))) - 1) < 140 \<and>
   (\<exists>r. trimPrompt (sim_encode 4) (sim_split CHR 0x0A) (replicate 200 CHR ''a'') 1 = Some r \<and>
        length r = 140)"
  using trimPrompt_budget_one [of "''Hello, world''" "sim_encode 4" "sim_split CHR 0x0A"]
    trimPrompt_budget_one [of "replicate 200 CHR ''a''" "sim_encode 4" "sim_split CHR 0x0A"]
  by (simp add: sim_encode_def)

text \<open>C7. The empty text is returned as the empty text, for every context size.\<close>

theorem trimPrompt_empty_string: "trimPrompt encode splitText [] contextSize = Some []"
  by (subst trimPrompt.simps) simp

text \<open>
  C9. \<^verbatim>\<open>trimPrompt\<close> is idempotent for every text and every context size (in
  particular every budget of at least 1): the call returns some \<open>r\<close>, which measures
  within the context size or has at most 140 code units, and trimming \<open>r\<close> again with
  the same context size returns \<open>r\<close>.
\<close>

theorem trimPrompt_idempotent:
  assumes "chunks_are_substrings splitText"
  shows "\<exists>r. trimPrompt encode splitText prompt contextSize = Some r \<and>
             (int (length (encode r)) \<le> contextSize \<or> length r \<le> 140) \<and>
             trimPrompt encode splitText r contextSize = Some r"
  using trimPrompt_returns [OF assms] by blast

theorem trimPrompt_idempotent_witness:
  "chunks_are_substrings (sim_split CHR 0x0A :: char splitter) \<and>
   (\<exists>r. trimPrompt (sim_encode 5) (sim_split CHR 0x0A) (replicate 600 CHR ''c'') 20 = Some r \<and>
        (int (length (sim_encode 5 r)) \<le> 20 \<or> length r \<le> 140) \<and>
        trimPrompt (sim_encode 5) (sim_split CHR 0x0A) r 20 = Some r)"
  using trimPrompt_idempotent [OF sim_split_substrings [of "CHR 0x0A"], of "sim_encode 5"
      "replicate 600 CHR ''c''" 20]
    sim_split_substrings [of "CHR 0x0A"]
  by simp

subsection \<open>getSelectedModel\<close>

text \<open>
  C6. When the azure handle is null, \<^verbatim>\<open>getSelectedModel('azure')\<close> returns the handle
  that \<^verbatim>\<open>getSelectedModel('openai')\<close> returns and prints exactly one warning; likewise
  for a null mistral handle. The function has no failing branch.
\<close>

theorem getSelectedModel_fallback:
  "(azureModel m = None \<longrightarrow>
      fst (getSelectedModel m ''azure'' con) = fst (getSelectedModel m ''openai'' con) \<and>
      snd (getSelectedModel m ''azure'' con) =
        con @ [''Azure API key not provided. Falling back to OpenAI model.'']) \<and>
   (mistralModel m = None \<longrightarrow>
      fst (getSelectedModel m ''mistral'' con) = fst (getSelectedModel m ''openai'' con) \<and>
      snd (getSelectedModel m ''mistral'' con) =
        con @ [''Mistral API key not provided. Falling back to OpenAI model.''])"
  by (simp add: getSelectedModel_def warn_def)

theorem getSelectedModel_fallback_witness:
  "azureModel (load_models Map.empty) = None \<and>
   fst (getSelectedModel (load_models Map.empty) ''azure'' []) =
     fst (getSelectedModel (load_models Map.empty) ''openai'' []) \<and>
   snd (getSelectedModel (load_models Map.empty) ''azure'' []) =
     [''Azure API key not provided. Falling back to OpenAI model.''] \<and>
   mistralModel (load_models Map.empty) = None \<and>
   fst (getSelectedModel (load_models Map.empty) ''mistral'' []) =
     fst (getSelectedModel (load_models Map.empty) ''openai'' []) \<and>
   snd (getSelectedModel (load_models Map.empty) ''mistral'' []) =
     [''Mistral API key not provided. Falling back to OpenAI model.'']"
  using getSelectedModel_fallback [of "load_models Map.empty" "[]"] unconfigured_null
  by simp

text \<open>
  C8. For an identifier other than openai, google, azure and mistral,
  \<^verbatim>\<open>getSelectedModel\<close> returns the handle that it returns for openai and prints no
  warning.
\<close>

theorem getSelectedModel_default:
  assumes "modelType \<notin> {''openai'', ''google'', ''azure'', ''mistral''}"
  shows "fst (getSelectedModel m modelType con) = fst (getSelectedModel m ''openai'' con) \<and>
         snd (getSelectedModel m modelType con) = con"
  using assms by (simp add: getSelectedModel_def)

theorem getSelectedModel_default_witness:
  "''unknown-value'' \<notin> {''openai'', ''google'', ''azure'', ''mistral''} \<and>
   fst (getSelectedModel (load_models Map.empty) ''unknown-value'' []) =
     fst (getSelectedModel (load_models Map.empty) ''openai'' []) \<and>
   snd (getSelectedModel (load_models Map.empty) ''unknown-value'' []) = []"
  using getSelectedModel_default [of "''unknown-value''" "load_models Map.empty" "[]"]
  by simp

text \<open>
  C10. \<^verbatim>\<open>getSelectedModel\<close> never returns null, for each of the four provider
  identifiers (and for any other identifier), whether or not the azure and mistral
  handles are null.
\<close>

theorem getSelectedModel_never_null:
  "\<exists>h. fst (getSelectedModel m modelType con) = Some h"
  by (auto simp: getSelectedModel_def)

end
